theory Spec2Isabelle
  imports Main "HOL-Library.Sublist" "HOL-Library.Log_Nat"
begin

section \<open>JavaScript values\<close>

text \<open>
  The handlers of \<^verbatim>\<open>server.js\<close> read their inputs from a JSON request body and
  hand them to three built-in operations of the language: the truthiness test of
  \<^verbatim>\<open>if (x)\<close>, \<^verbatim>\<open>!x\<close> and \<^verbatim>\<open>x || null\<close>, the coercion \<^verbatim>\<open>Number(x)\<close>, and the
  strict comparison \<^verbatim>\<open>!==\<close> of two numbers. The values below are the ones a parsed
  JSON body can hold, plus \<^verbatim>\<open>undefined\<close> for a property that is missing.

  A string is represented by its UTF-8 bytes. A number is a double: not-a-number, one
  of the two infinities, or a finite value, kept as the rational it denotes; the two
  zeros are one value here, which is all that truthiness and \<^verbatim>\<open>!==\<close> can observe.
\<close>

datatype jsnum = NaN | PInf | NInf | Fin rat

datatype jsval =
    JUndefined
  | JNull
  | JBool bool
  | JNum jsnum
  | JStr string
  | JArr "jsval list"
  | JObj "(string \<times> jsval) list"

type_synonym jsobj = "(string \<times> jsval) list"

datatype exn = TypeError | StoreError string | HashError

text \<open>Property read \<^verbatim>\<open>o.k\<close> and destructuring of a plain object: a missing key reads as
  \<^verbatim>\<open>undefined\<close>.\<close>

definition get_prop :: "jsobj \<Rightarrow> string \<Rightarrow> jsval" where
  "get_prop obj k = (case map_of obj k of None \<Rightarrow> JUndefined | Some v \<Rightarrow> v)"

text \<open>\<^verbatim>\<open>delete o.k\<close>.\<close>

definition delete_prop :: "jsobj \<Rightarrow> string \<Rightarrow> jsobj" where
  "delete_prop obj k = filter (\<lambda>kv. fst kv \<noteq> k) obj"

text \<open>ToBoolean: the falsy values are \<^verbatim>\<open>undefined\<close>, \<^verbatim>\<open>null\<close>, \<^verbatim>\<open>false\<close>, zero, NaN and
  the empty string; every array and object is truthy.\<close>

fun truthy :: "jsval \<Rightarrow> bool" where
  "truthy JUndefined = False"
| "truthy JNull = False"
| "truthy (JBool b) = b"
| "truthy (JNum n) = (n \<noteq> NaN \<and> n \<noteq> Fin 0)"
| "truthy (JStr s) = (s \<noteq> [])"
| "truthy (JArr xs) = True"
| "truthy (JObj kvs) = True"

text \<open>\<^verbatim>\<open>x || null\<close>.\<close>

definition or_null :: "jsval \<Rightarrow> jsval" where
  "or_null x = (if truthy x then x else JNull)"

text \<open>\<^verbatim>\<open>a !== b\<close> on two numbers: NaN differs from everything, itself included.\<close>

definition strict_neq :: "jsnum \<Rightarrow> jsnum \<Rightarrow> bool" where
  "strict_neq a b = (a = NaN \<or> b = NaN \<or> a \<noteq> b)"

subsection \<open>Rounding to a double\<close>

definition pow2 :: "int \<Rightarrow> rat" where
  "pow2 e = (if 0 \<le> e then 2 ^ nat e else 1 / 2 ^ nat (- e))"

definition pow10 :: "int \<Rightarrow> rat" where
  "pow10 e = (if 0 \<le> e then 10 ^ nat e else 1 / 10 ^ nat (- e))"

definition round_half_even :: "rat \<Rightarrow> int" where
  "round_half_even x =
     (let f = \<lfloor>x\<rfloor>; r = x - of_int f
      in if r < 1 / 2 then f
         else if 1 / 2 < r then f + 1
         else if even f then f else f + 1)"

text \<open>The binary exponent of a positive rational: the \<open>e\<close> with \<open>2 ^ e \<le> a < 2 ^ (e + 1)\<close>.\<close>

definition ilog2 :: "rat \<Rightarrow> int" where
  "ilog2 a =
     (let (n, d) = quotient_of a; k = bitlen n - bitlen d
      in if pow2 k \<le> a then k else k - 1)"

text \<open>The Number value for a mathematical value: round to the nearest double, ties to
  the even significand. A double is a significand \<open>m\<close> of at most 53 bits times \<open>2 ^ p\<close>,
  with \<open>p\<close> from \<open>-1074\<close> to \<open>971\<close>; what rounds beyond the largest of them,
  \<open>(2 ^ 53 - 1) * 2 ^ 971\<close>, is an infinity.\<close>

definition to_double :: "rat \<Rightarrow> jsnum" where
  "to_double q =
     (if q = 0 then Fin 0
      else
        let a = \<bar>q\<bar>;
            p = max (ilog2 a - 52) (- 1074);
            m = round_half_even (a / pow2 p)
        in if 971 < p \<or> (p = 971 \<and> 2 ^ 53 \<le> m) then (if 0 < q then PInf else NInf)
           else Fin (if 0 < q then of_int m * pow2 p else - (of_int m * pow2 p)))"

subsection \<open>StringToNumber\<close>

text \<open>The white space of a string numeric literal (WhiteSpace and LineTerminator): TAB,
  LF, VT, FF, CR, SP, and in UTF-8 U+00A0, U+1680, U+2000 to U+200A, U+2028, U+2029,
  U+202F, U+205F, U+3000, U+FEFF.\<close>

definition ws_seqs :: "string list" where
  "ws_seqs =
     [[CHR 0x09], [CHR 0x0A], [CHR 0x0B], [CHR 0x0C], [CHR 0x0D], [CHR 0x20],
      [CHR 0xC2, CHR 0xA0],
      [CHR 0xE1, CHR 0x9A, CHR 0x80],
      [CHR 0xE2, CHR 0x80, CHR 0x80], [CHR 0xE2, CHR 0x80, CHR 0x81],
      [CHR 0xE2, CHR 0x80, CHR 0x82], [CHR 0xE2, CHR 0x80, CHR 0x83],
      [CHR 0xE2, CHR 0x80, CHR 0x84], [CHR 0xE2, CHR 0x80, CHR 0x85],
      [CHR 0xE2, CHR 0x80, CHR 0x86], [CHR 0xE2, CHR 0x80, CHR 0x87],
      [CHR 0xE2, CHR 0x80, CHR 0x88], [CHR 0xE2, CHR 0x80, CHR 0x89],
      [CHR 0xE2, CHR 0x80, CHR 0x8A],
      [CHR 0xE2, CHR 0x80, CHR 0xA8], [CHR 0xE2, CHR 0x80, CHR 0xA9],
      [CHR 0xE2, CHR 0x80, CHR 0xAF],
      [CHR 0xE2, CHR 0x81, CHR 0x9F],
      [CHR 0xE3, CHR 0x80, CHR 0x80],
      [CHR 0xEF, CHR 0xBB, CHR 0xBF]]"

fun strip1 :: "string list \<Rightarrow> string \<Rightarrow> string option" where
  "strip1 [] s = None"
| "strip1 (w # ws) s =
     (if w \<noteq> [] \<and> prefix w s then Some (drop (length w) s) else strip1 ws s)"

lemma strip1_shorter: "strip1 ws s = Some t \<Longrightarrow> length t < length s"
  by (induction ws) (auto simp: prefix_def split: if_splits)

function strip_all :: "string list \<Rightarrow> string \<Rightarrow> string" where
  "strip_all ws s = (case strip1 ws s of None \<Rightarrow> s | Some t \<Rightarrow> strip_all ws t)"
  by pat_completeness auto
termination
  by (relation "measure (\<lambda>(ws, s). length s)") (auto dest: strip1_shorter)

definition trim_ws :: "string \<Rightarrow> string" where
  "trim_ws s = rev (strip_all (map rev ws_seqs) (rev (strip_all ws_seqs s)))"

definition digit_of :: "char \<Rightarrow> nat option" where
  "digit_of c =
     (let n = (of_char c :: nat)
      in if 48 \<le> n \<and> n \<le> 57 then Some (n - 48)
         else if 97 \<le> n \<and> n \<le> 102 then Some (n - 87)
         else if 65 \<le> n \<and> n \<le> 70 then Some (n - 55)
         else None)"

definition is_digit :: "nat \<Rightarrow> char \<Rightarrow> bool" where
  "is_digit base c = (case digit_of c of None \<Rightarrow> False | Some v \<Rightarrow> v < base)"

fun digits_value :: "int \<Rightarrow> int \<Rightarrow> string \<Rightarrow> int" where
  "digits_value base acc [] = acc"
| "digits_value base acc (c # cs) =
     digits_value base (acc * base + (case digit_of c of None \<Rightarrow> 0 | Some v \<Rightarrow> int v)) cs"

text \<open>NonDecimalIntegerLiteral without its two-character prefix: one digit at least,
  digits of the base only.\<close>

definition radix_literal :: "nat \<Rightarrow> string \<Rightarrow> jsnum" where
  "radix_literal base ds =
     (if ds \<noteq> [] \<and> list_all (is_digit base) ds
      then to_double (of_int (digits_value (int base) 0 ds)) else NaN)"

text \<open>ExponentPart, or nothing: \<open>e\<close> or \<open>E\<close>, an optional sign, one digit at least.\<close>

definition exponent_part :: "string \<Rightarrow> int option" where
  "exponent_part s =
     (case s of
        [] \<Rightarrow> Some 0
      | c # t \<Rightarrow>
          if c = CHR ''e'' \<or> c = CHR ''E'' then
            (let (neg, ds) =
                   (case t of
                      [] \<Rightarrow> (False, [])
                    | d # u \<Rightarrow>
                        if d = CHR ''-'' then (True, u)
                        else if d = CHR ''+'' then (False, u)
                        else (False, t))
             in if ds \<noteq> [] \<and> list_all (is_digit 10) ds
                then Some (if neg then - digits_value 10 0 ds else digits_value 10 0 ds)
                else None)
          else None)"

text \<open>StrUnsignedDecimalLiteral: \<open>Infinity\<close>, or digits with an optional fraction and an
  optional exponent, where the digits before or the digits after the point are there.
  The result is the mathematical value, not yet rounded.\<close>

datatype mv = MvInfinity | MvFinite rat

definition unsigned_decimal :: "string \<Rightarrow> mv option" where
  "unsigned_decimal s =
     (if s = ''Infinity'' then Some MvInfinity
      else
        let ip = takeWhile (is_digit 10) s;
            r1 = dropWhile (is_digit 10) s;
            (fp, r2) =
               (case r1 of
                  [] \<Rightarrow> ([], r1)
                | c # t \<Rightarrow>
                    if c = CHR ''.''
                    then (takeWhile (is_digit 10) t, dropWhile (is_digit 10) t)
                    else ([], r1))
        in if ip = [] \<and> fp = [] then None
           else
             (case exponent_part r2 of
                None \<Rightarrow> None
              | Some e \<Rightarrow>
                  Some (MvFinite (of_int (digits_value 10 0 (ip @ fp))
                                  * pow10 (e - int (length fp))))))"

definition signed_decimal :: "string \<Rightarrow> jsnum" where
  "signed_decimal s =
     (let (neg, u) =
            (case s of
               [] \<Rightarrow> (False, s)
             | c # t \<Rightarrow>
                 if c = CHR ''-'' then (True, t)
                 else if c = CHR ''+'' then (False, t)
                 else (False, s))
      in case unsigned_decimal u of
           None \<Rightarrow> NaN
         | Some MvInfinity \<Rightarrow> (if neg then NInf else PInf)
         | Some (MvFinite q) \<Rightarrow> to_double (if neg then - q else q))"

text \<open>StringToNumber: the empty or all-blank string is \<open>0\<close>; a string that is not a
  StringNumericLiteral is NaN.\<close>

definition StringToNumber :: "string \<Rightarrow> jsnum" where
  "StringToNumber str =
     (let s = trim_ws str
      in if s = [] then Fin 0
         else
           (case s of
              c # d # t \<Rightarrow>
                if c = CHR ''0'' \<and> (d = CHR ''x'' \<or> d = CHR ''X'') then radix_literal 16 t
                else if c = CHR ''0'' \<and> (d = CHR ''o'' \<or> d = CHR ''O'') then radix_literal 8 t
                else if c = CHR ''0'' \<and> (d = CHR ''b'' \<or> d = CHR ''B'') then radix_literal 2 t
                else signed_decimal s
            | _ \<Rightarrow> signed_decimal s))"

subsection \<open>Number\<close>

text \<open>
  \<^verbatim>\<open>Number(x)\<close> on a primitive is ToNumber. On an array or an object it first takes the
  primitive value, which for the values of a JSON body is the string of
  \<^verbatim>\<open>toString\<close>: an array joins the strings of its elements with commas (\<^verbatim>\<open>null\<close> gives
  the empty string), a plain object gives \<^verbatim>\<open>[object Object]\<close>. A parsed object whose
  own key \<^verbatim>\<open>toString\<close> shadows the method has nothing callable left and the
  conversion throws a TypeError, also from inside an array.
\<close>

fun to_string_throws :: "jsval \<Rightarrow> bool" where
  "to_string_throws (JArr xs) = list_ex to_string_throws xs"
| "to_string_throws (JObj kvs) = (''toString'' \<in> set (map fst kvs))"
| "to_string_throws v = False"

text \<open>The number read back from the joined string of an array that does not throw: two
  elements or more leave a comma in it, which no numeric literal has; a single number
  prints to a string that reads back as the same number.\<close>

fun array_number :: "jsval list \<Rightarrow> jsnum" where
  "array_number [] = Fin 0"
| "array_number [JUndefined] = Fin 0"
| "array_number [JNull] = Fin 0"
| "array_number [JBool b] = NaN"
| "array_number [JNum n] = n"
| "array_number [JStr s] = StringToNumber s"
| "array_number [JArr ys] = array_number ys"
| "array_number [JObj kvs] = NaN"
| "array_number (x # y # zs) = NaN"

definition Number :: "jsval \<Rightarrow> exn + jsnum" where
  "Number v =
     (case v of
        JUndefined \<Rightarrow> Inr NaN
      | JNull \<Rightarrow> Inr (Fin 0)
      | JBool b \<Rightarrow> Inr (Fin (if b then 1 else 0))
      | JNum n \<Rightarrow> Inr n
      | JStr s \<Rightarrow> Inr (StringToNumber s)
      | JArr xs \<Rightarrow> if to_string_throws v then Inl TypeError else Inr (array_number xs)
      | JObj kvs \<Rightarrow> if to_string_throws v then Inl TypeError else Inr NaN)"

section \<open>The record store\<close>

text \<open>
  The two tables the statements of \<^verbatim>\<open>server.js\<close> name, by their columns. The key of a
  book and of a user and the owner of a book are integers, the owner possibly NULL,
  of a width the driver reads back as the same number; the other columns hold what
  the statement bound to them, and \<^verbatim>\<open>WHERE correo = ?\<close> selects the rows whose column is
  the bound value. The \<^verbatim>\<open>:id\<close> segment of the path is passed to the store untouched and
  never inspected by a handler, so the model takes it as the key it names. The users
  table hands out its keys from a counter. A table is the list of its rows in the
  order a SELECT returns them.
\<close>

record libro =
  libro_id :: int
  titulo :: jsval
  autor :: jsval
  anio :: jsval
  usuario_id :: "int option"

record usuario =
  user_id :: int
  correo :: jsval
  contrasena :: jsval
  nombre :: jsval

record db =
  libros :: "libro list"
  usuarios :: "usuario list"
  usuarios_auto_increment :: int

text \<open>The statements the four handlers send, each with its bound parameters in the
  order of the \<^verbatim>\<open>?\<close> marks:
  \<^item> \<^verbatim>\<open>SELECT usuario_id FROM libros WHERE id = ?\<close>
  \<^item> \<^verbatim>\<open>UPDATE libros SET titulo=?, autor=?, anio=? WHERE id=?\<close>
  \<^item> \<^verbatim>\<open>DELETE FROM libros WHERE id = ?\<close>
  \<^item> \<^verbatim>\<open>SELECT id FROM usuarios WHERE correo = ?\<close>
  \<^item> \<^verbatim>\<open>INSERT INTO usuarios (correo, contrasena, nombre) VALUES (?, ?, ?)\<close>
  \<^item> \<^verbatim>\<open>SELECT id, correo, nombre, contrasena FROM usuarios WHERE correo = ?\<close>\<close>

datatype sql =
    SelectOwner int
  | UpdateLibro jsval jsval jsval int
  | DeleteLibro int
  | SelectUsuarioId jsval
  | InsertUsuario jsval jsval jsval
  | SelectUsuario jsval

text \<open>What \<^verbatim>\<open>pool.execute\<close> resolves to: the rows of a SELECT as objects, or the header of
  a mutation with its \<^verbatim>\<open>insertId\<close> and \<^verbatim>\<open>affectedRows\<close>.\<close>

datatype result = Rows "jsobj list" | ResultSetHeader int nat

text \<open>An integer column read back as a JavaScript value.\<close>

definition js_int :: "int \<Rightarrow> jsval" where
  "js_int k = JNum (Fin (of_int k))"

definition js_int_or_null :: "int option \<Rightarrow> jsval" where
  "js_int_or_null c = (case c of None \<Rightarrow> JNull | Some k \<Rightarrow> js_int k)"

definition set_libro :: "jsval \<Rightarrow> jsval \<Rightarrow> jsval \<Rightarrow> libro \<Rightarrow> libro" where
  "set_libro t a y b = b\<lparr>titulo := t, autor := a, anio := y\<rparr>"

fun execute :: "sql \<Rightarrow> db \<Rightarrow> result \<times> db" where
  "execute (SelectOwner i) d =
     (Rows (map (\<lambda>b. [(''usuario_id'', js_int_or_null (usuario_id b))])
              (filter (\<lambda>b. libro_id b = i) (libros d))), d)"
| "execute (UpdateLibro t a y i) d =
     (ResultSetHeader 0 (length (filter (\<lambda>b. libro_id b = i) (libros d))),
      d\<lparr>libros := map (\<lambda>b. if libro_id b = i then set_libro t a y b else b) (libros d)\<rparr>)"
| "execute (DeleteLibro i) d =
     (ResultSetHeader 0 (length (filter (\<lambda>b. libro_id b = i) (libros d))),
      d\<lparr>libros := filter (\<lambda>b. libro_id b \<noteq> i) (libros d)\<rparr>)"
| "execute (SelectUsuarioId c) d =
     (Rows (map (\<lambda>u. [(''id'', js_int (user_id u))])
              (filter (\<lambda>u. correo u = c) (usuarios d))), d)"
| "execute (InsertUsuario c h n) d =
     (ResultSetHeader (usuarios_auto_increment d) 1,
      d\<lparr>usuarios := usuarios d @
           [\<lparr>user_id = usuarios_auto_increment d, correo = c, contrasena = h, nombre = n\<rparr>],
        usuarios_auto_increment := usuarios_auto_increment d + 1\<rparr>)"
| "execute (SelectUsuario c) d =
     (Rows (map (\<lambda>u. [(''id'', js_int (user_id u)), (''correo'', correo u),
                       (''nombre'', nombre u), (''contrasena'', contrasena u)])
              (filter (\<lambda>u. correo u = c) (usuarios d))), d)"

text \<open>
  What lies outside \<^verbatim>\<open>server.js\<close> and can make a handler take its \<^verbatim>\<open>catch\<close> branch: the
  store or its driver rejecting a statement (\<open>faults\<close> says with which error, given the
  statement and the tables it meets), and the two functions of the password-hashing
  library, which may throw as well.
\<close>

record env =
  faults :: "sql \<Rightarrow> db \<Rightarrow> exn option"
  bcrypt_hash :: "jsval \<Rightarrow> nat \<Rightarrow> exn + string"
  bcrypt_compare :: "jsval \<Rightarrow> jsval \<Rightarrow> exn + bool"

text \<open>\<^verbatim>\<open>query(sql, params)\<close>: a statement that is rejected throws and leaves the tables as
  they were.\<close>

definition query :: "env \<Rightarrow> sql \<Rightarrow> db \<Rightarrow> exn + result \<times> db" where
  "query e q d = (case faults e q d of Some x \<Rightarrow> Inl x | None \<Rightarrow> Inr (execute q d))"

text \<open>\<^verbatim>\<open>rows.length === 0\<close>, \<^verbatim>\<open>rows.length > 0\<close>, \<^verbatim>\<open>rows[0]\<close> and \<^verbatim>\<open>result.insertId\<close>. A header
  has no \<^verbatim>\<open>length\<close> and no element \<^verbatim>\<open>0\<close>; a property read on the missing first row
  throws.\<close>

definition length_is_0 :: "result \<Rightarrow> bool" where
  "length_is_0 r = (case r of Rows rs \<Rightarrow> rs = [] | ResultSetHeader k n \<Rightarrow> False)"

definition length_gt_0 :: "result \<Rightarrow> bool" where
  "length_gt_0 r = (case r of Rows rs \<Rightarrow> rs \<noteq> [] | ResultSetHeader k n \<Rightarrow> False)"

definition first_row :: "result \<Rightarrow> exn + jsobj" where
  "first_row r =
     (case r of
        Rows [] \<Rightarrow> Inl TypeError
      | Rows (x # xs) \<Rightarrow> Inr x
      | ResultSetHeader k n \<Rightarrow> Inl TypeError)"

definition insertId :: "result \<Rightarrow> jsval" where
  "insertId r = (case r of Rows rs \<Rightarrow> JUndefined | ResultSetHeader k n \<Rightarrow> js_int k)"

section \<open>The request handlers\<close>

text \<open>
  The four handlers the properties below are about: \<^verbatim>\<open>PUT /libros/:id\<close>,
  \<^verbatim>\<open>DELETE /libros/:id\<close>, \<^verbatim>\<open>POST /usuarios/registro\<close> and \<^verbatim>\<open>POST /usuarios/login\<close>. Each takes
  the environment, the parsed body (the object the JSON middleware leaves in
  \<^verbatim>\<open>req.body\<close>, the empty object when the request had none) and the tables, and returns
  the response with the tables after it. \<^verbatim>\<open>res.json\<close> without a status is a 200.
\<close>

record response =
  status :: nat
  json :: jsval

definition mensaje :: "nat \<Rightarrow> string \<Rightarrow> response" where
  "mensaje code text = \<lparr>status = code, json = JObj [(''mensaje'', JStr text)]\<rparr>"

text \<open>A handler is its \<^verbatim>\<open>try\<close> block, which ends in a response or in an exception, and
  the \<^verbatim>\<open>catch\<close> that turns the exception into the handler's own 500.\<close>

definition catch :: "string \<Rightarrow> (exn + response) \<times> db \<Rightarrow> response \<times> db" where
  "catch text r = (case r of (Inl x, d) \<Rightarrow> (mensaje 500 text, d) | (Inr a, d) \<Rightarrow> (a, d))"

subsection \<open>PUT /libros/:id\<close>

text \<open>Lines 77 and 78: the UPDATE and the success message.\<close>

definition put_libro_update :: "env \<Rightarrow> int \<Rightarrow> jsobj \<Rightarrow> db \<Rightarrow> (exn + response) \<times> db" where
  "put_libro_update e i body d =
     (case query e (UpdateLibro (get_prop body ''titulo'') (get_prop body ''autor'')
                      (get_prop body ''anio'') i) d of
        Inl x \<Rightarrow> (Inl x, d)
      | Inr (r, d') \<Rightarrow> (Inr (mensaje 200 ''Libro actualizado''), d'))"

definition put_libro_try :: "env \<Rightarrow> int \<Rightarrow> jsobj \<Rightarrow> db \<Rightarrow> (exn + response) \<times> db" where
  "put_libro_try e i body d =
     (let usuarioId = get_prop body ''usuarioId''
      in if truthy usuarioId then
           (case query e (SelectOwner i) d of
              Inl x \<Rightarrow> (Inl x, d)
            | Inr (rows, d1) \<Rightarrow>
                if length_is_0 rows then (Inr (mensaje 404 ''Libro no encontrado''), d1)
                else
                  (case first_row rows of
                     Inl x \<Rightarrow> (Inl x, d1)
                   | Inr row \<Rightarrow>
                       (case Number (get_prop row ''usuario_id'') of
                          Inl x \<Rightarrow> (Inl x, d1)
                        | Inr stored \<Rightarrow>
                            (case Number usuarioId of
                               Inl x \<Rightarrow> (Inl x, d1)
                             | Inr claimed \<Rightarrow>
                                 if strict_neq stored claimed
                                 then (Inr (mensaje 403
                                         ''No autorizado para actualizar este libro''), d1)
                                 else put_libro_update e i body d1))))
         else put_libro_update e i body d)"

definition put_libro :: "env \<Rightarrow> int \<Rightarrow> jsobj \<Rightarrow> db \<Rightarrow> response \<times> db" where
  "put_libro e i body d = catch ''Error al actualizar libro'' (put_libro_try e i body d)"

subsection \<open>DELETE /libros/:id\<close>

definition delete_libro_try :: "env \<Rightarrow> int \<Rightarrow> jsobj \<Rightarrow> db \<Rightarrow> (exn + response) \<times> db" where
  "delete_libro_try e i body d =
     (let usuarioId = get_prop body ''usuarioId''
      in if \<not> truthy usuarioId
         then (Inr (mensaje 400 ''Se requiere usuarioId para eliminar''), d)
         else
           (case query e (SelectOwner i) d of
              Inl x \<Rightarrow> (Inl x, d)
            | Inr (rows, d1) \<Rightarrow>
                if length_is_0 rows then (Inr (mensaje 404 ''Libro no encontrado''), d1)
                else
                  (case first_row rows of
                     Inl x \<Rightarrow> (Inl x, d1)
                   | Inr row \<Rightarrow>
                       (case Number (get_prop row ''usuario_id'') of
                          Inl x \<Rightarrow> (Inl x, d1)
                        | Inr stored \<Rightarrow>
                            (case Number usuarioId of
                               Inl x \<Rightarrow> (Inl x, d1)
                             | Inr claimed \<Rightarrow>
                                 if strict_neq stored claimed
                                 then (Inr (mensaje 403
                                         ''No autorizado para eliminar este libro''), d1)
                                 else
                                   (case query e (DeleteLibro i) d1 of
                                      Inl x \<Rightarrow> (Inl x, d1)
                                    | Inr (r, d2) \<Rightarrow>
                                        (Inr (mensaje 200 ''Libro eliminado''), d2)))))))"

definition delete_libro :: "env \<Rightarrow> int \<Rightarrow> jsobj \<Rightarrow> db \<Rightarrow> response \<times> db" where
  "delete_libro e i body d = catch ''Error al eliminar libro'' (delete_libro_try e i body d)"

subsection \<open>POST /usuarios/registro\<close>

text \<open>The three messages with a letter outside ASCII, in UTF-8.\<close>

definition obligatorios :: string where
  "obligatorios = ''Correo y contrase'' @ [CHR 0xC3, CHR 0xB1] @ ''a son obligatorios''"

definition ya_registrado :: string where
  "ya_registrado = ''El correo ya est'' @ [CHR 0xC3, CHR 0xA1] @ '' registrado''"

definition incorrectos :: string where
  "incorrectos = ''Correo o contrase'' @ [CHR 0xC3, CHR 0xB1] @ ''a incorrectos''"

definition registro_try :: "env \<Rightarrow> jsobj \<Rightarrow> db \<Rightarrow> (exn + response) \<times> db" where
  "registro_try e body d =
     (let correo_v = get_prop body ''correo'';
          contrasena_v = get_prop body ''contrasena'';
          nombre_v = get_prop body ''nombre''
      in if \<not> truthy correo_v \<or> \<not> truthy contrasena_v
         then (Inr (mensaje 400 obligatorios), d)
         else
           (case query e (SelectUsuarioId correo_v) d of
              Inl x \<Rightarrow> (Inl x, d)
            | Inr (existing, d1) \<Rightarrow>
                if length_gt_0 existing then (Inr (mensaje 409 ya_registrado), d1)
                else
                  (case bcrypt_hash e contrasena_v 10 of
                     Inl x \<Rightarrow> (Inl x, d1)
                   | Inr hash \<Rightarrow>
                       (case query e (InsertUsuario correo_v (JStr hash) (or_null nombre_v)) d1 of
                          Inl x \<Rightarrow> (Inl x, d1)
                        | Inr (r, d2) \<Rightarrow>
                            (Inr \<lparr>status = 200,
                                  json = JObj [(''mensaje'', JStr ''Usuario registrado correctamente''),
                                               (''id'', insertId r)]\<rparr>, d2)))))"

definition registro :: "env \<Rightarrow> jsobj \<Rightarrow> db \<Rightarrow> response \<times> db" where
  "registro e body d = catch ''Error en el registro'' (registro_try e body d)"

subsection \<open>POST /usuarios/login\<close>

definition login_try :: "env \<Rightarrow> jsobj \<Rightarrow> db \<Rightarrow> (exn + response) \<times> db" where
  "login_try e body d =
     (let correo_v = get_prop body ''correo'';
          contrasena_v = get_prop body ''contrasena''
      in if \<not> truthy correo_v \<or> \<not> truthy contrasena_v
         then (Inr (mensaje 400 obligatorios), d)
         else
           (case query e (SelectUsuario correo_v) d of
              Inl x \<Rightarrow> (Inl x, d)
            | Inr (rows, d1) \<Rightarrow>
                if length_is_0 rows then (Inr (mensaje 401 incorrectos), d1)
                else
                  (case first_row rows of
                     Inl x \<Rightarrow> (Inl x, d1)
                   | Inr user \<Rightarrow>
                       (case bcrypt_compare e contrasena_v (get_prop user ''contrasena'') of
                          Inl x \<Rightarrow> (Inl x, d1)
                        | Inr ok \<Rightarrow>
                            if \<not> ok then (Inr (mensaje 401 incorrectos), d1)
                            else
                              (Inr \<lparr>status = 200,
                                    json = JObj [(''mensaje'', JStr ''Login exitoso''),
                                                 (''usuario'',
                                                  JObj (delete_prop user ''contrasena''))]\<rparr>,
                               d1)))))"

definition login :: "env \<Rightarrow> jsobj \<Rightarrow> db \<Rightarrow> response \<times> db" where
  "login e body d = catch ''Error en el login'' (login_try e body d)"

section \<open>Example requests and stores\<close>

text \<open>A stand-in for the hashing library, used only to run the handlers on examples: the
  hash of a string is the string behind a tag, and anything but a string throws.\<close>

definition toy_hash :: "jsval \<Rightarrow> nat \<Rightarrow> exn + string" where
  "toy_hash p rounds = (case p of JStr s \<Rightarrow> Inr (''$toy$'' @ s) | _ \<Rightarrow> Inl HashError)"

definition toy_compare :: "jsval \<Rightarrow> jsval \<Rightarrow> exn + bool" where
  "toy_compare p h =
     (case p of
        JStr s \<Rightarrow> (case h of JStr t \<Rightarrow> Inr (t = ''$toy$'' @ s) | _ \<Rightarrow> Inl HashError)
      | _ \<Rightarrow> Inl HashError)"

text \<open>A store that accepts every statement.\<close>

definition steady :: env where
  "steady = \<lparr>faults = (\<lambda>q d. None), bcrypt_hash = toy_hash, bcrypt_compare = toy_compare\<rparr>"

text \<open>A store with a unique index on \<^verbatim>\<open>correo\<close> that another request has just filled: the
  SELECT of this request saw no row, its INSERT is refused as a duplicate.\<close>

definition raced :: env where
  "raced =
     \<lparr>faults = (\<lambda>q d. case q of InsertUsuario c h n \<Rightarrow> Some (StoreError ''ER_DUP_ENTRY'')
                               | _ \<Rightarrow> None),
      bcrypt_hash = toy_hash, bcrypt_compare = toy_compare\<rparr>"

definition rayuela :: libro where
  "rayuela = \<lparr>libro_id = 1, titulo = JStr ''Rayuela'', autor = JStr ''Cortazar'',
               anio = JNum (Fin 1963), usuario_id = Some 5\<rparr>"

definition pedro_paramo :: libro where
  "pedro_paramo = \<lparr>libro_id = 2, titulo = JStr ''Pedro Paramo'', autor = JStr ''Rulfo'',
                    anio = JNum (Fin 1955), usuario_id = None\<rparr>"

definition el_tunel :: libro where
  "el_tunel = \<lparr>libro_id = 3, titulo = JStr ''El tunel'', autor = JStr ''Sabato'',
                anio = JNum (Fin 1948), usuario_id = Some 0\<rparr>"

definition shelf :: db where
  "shelf = \<lparr>libros = [rayuela, pedro_paramo, el_tunel], usuarios = [],
             usuarios_auto_increment = 1\<rparr>"

definition edit :: jsobj where
  "edit = [(''titulo'', JStr ''Ficciones''), (''autor'', JStr ''Borges''),
           (''anio'', JNum (Fin 1944))]"

definition edit_as :: "jsval \<Rightarrow> jsobj" where
  "edit_as u = edit @ [(''usuarioId'', u)]"

definition ana :: jsobj where
  "ana = [(''correo'', JStr ''ana@example.org''), (''contrasena'', JStr ''secreto''),
          (''nombre'', JStr ''Ana'')]"

definition ana_again :: jsobj where
  "ana_again = [(''correo'', JStr ''ana@example.org''), (''contrasena'', JStr ''otra'')]"

definition ana_wrong :: jsobj where
  "ana_wrong = [(''correo'', JStr ''ana@example.org''), (''contrasena'', JStr ''errada'')]"

definition nobody :: jsobj where
  "nobody = [(''correo'', JStr ''nadie@example.org''), (''contrasena'', JStr ''secreto'')]"

text \<open>Two logins whose password is present and is a number, not a string.\<close>

definition ana_number :: jsobj where
  "ana_number = [(''correo'', JStr ''ana@example.org''), (''contrasena'', JNum (Fin 12345))]"

definition nobody_number :: jsobj where
  "nobody_number = [(''correo'', JStr ''nadie@example.org''), (''contrasena'', JNum (Fin 12345))]"

definition ana_row :: usuario where
  "ana_row = \<lparr>user_id = 1, correo = JStr ''ana@example.org'',
               contrasena = JStr ''$toy$secreto'', nombre = JStr ''Ana''\<rparr>"

definition members :: db where
  "members = \<lparr>libros = [], usuarios = [ana_row], usuarios_auto_increment = 2\<rparr>"

section \<open>Properties\<close>

subsection \<open>Auxiliary facts\<close>

lemma query_ok: "faults e q d = None \<Longrightarrow> query e q d = Inr (execute q d)"
  by (simp add: query_def)

lemma query_fails: "faults e q d = Some x \<Longrightarrow> query e q d = Inl x"
  by (simp add: query_def)

lemma get_prop_absent: "map_of body k = None \<Longrightarrow> get_prop body k = JUndefined"
  by (simp add: get_prop_def)

lemma Number_stored:
  "Number (js_int_or_null c) = Inr (case c of None \<Rightarrow> Fin 0 | Some k \<Rightarrow> Fin (of_int k))"
  by (simp add: Number_def js_int_or_null_def js_int_def split: option.split)

lemma strict_neq_iff: "strict_neq a b \<longleftrightarrow> \<not> (a = b \<and> b \<noteq> NaN)"
  by (auto simp: strict_neq_def)

lemma update_no_match:
  "\<forall>b\<in>set bs. libro_id b \<noteq> i \<Longrightarrow> map (\<lambda>b. if libro_id b = i then f b else b) bs = bs"
  by (induction bs) auto

lemma filter_no_match:
  "\<forall>b\<in>set bs. libro_id b \<noteq> i \<Longrightarrow> filter (\<lambda>b. libro_id b = i) bs = []"
  by (induction bs) auto

lemma Number_string_5: "Number (JStr ''5'') = Inr (Fin 5)"
  by code_simp

lemma Number_string_0: "Number (JStr ''0'') = Inr (Fin 0)"
  by code_simp

lemma Number_string_abc: "Number (JStr ''abc'') = Inr NaN"
  by code_simp

text \<open>The guard's read, when the book is there: the first row carries the stored owner.\<close>

lemma select_owner_found:
  assumes "faults e (SelectOwner i) d = None"
    and "filter (\<lambda>b. libro_id b = i) (libros d) = b # bs"
  shows "\<exists>rows row. query e (SelectOwner i) d = Inr (rows, d) \<and> \<not> length_is_0 rows \<and>
           first_row rows = Inr row \<and> get_prop row ''usuario_id'' = js_int_or_null (usuario_id b)"
  using assms by (simp add: query_ok length_is_0_def first_row_def get_prop_def)

lemma select_owner_missing:
  assumes "faults e (SelectOwner i) d = None"
    and "\<forall>b\<in>set (libros d). libro_id b \<noteq> i"
  shows "\<exists>rows. query e (SelectOwner i) d = Inr (rows, d) \<and> length_is_0 rows"
  using assms by (simp add: query_ok length_is_0_def filter_no_match)

lemma put_guarded:
  assumes "truthy (get_prop body ''usuarioId'')"
    and "faults e (SelectOwner i) d = None"
    and "filter (\<lambda>b. libro_id b = i) (libros d) = b # bs"
    and "Number (js_int_or_null (usuario_id b)) = Inr stored"
    and "Number (get_prop body ''usuarioId'') = Inr claimed"
  shows "put_libro_try e i body d =
           (if strict_neq stored claimed
            then (Inr (mensaje 403 ''No autorizado para actualizar este libro''), d)
            else put_libro_update e i body d)"
proof -
  from select_owner_found [OF assms(2,3)] obtain rows row where
    "query e (SelectOwner i) d = Inr (rows, d)" "\<not> length_is_0 rows"
    "first_row rows = Inr row" "get_prop row ''usuario_id'' = js_int_or_null (usuario_id b)"
    by blast
  with assms(1,4,5) show ?thesis
    by (simp add: put_libro_try_def)
qed

lemma delete_guarded:
  assumes "truthy (get_prop body ''usuarioId'')"
    and "faults e (SelectOwner i) d = None"
    and "filter (\<lambda>b. libro_id b = i) (libros d) = b # bs"
    and "Number (js_int_or_null (usuario_id b)) = Inr stored"
    and "Number (get_prop body ''usuarioId'') = Inr claimed"
  shows "delete_libro_try e i body d =
           (if strict_neq stored claimed
            then (Inr (mensaje 403 ''No autorizado para eliminar este libro''), d)
            else (case query e (DeleteLibro i) d of
                    Inl x \<Rightarrow> (Inl x, d)
                  | Inr (r, d2) \<Rightarrow> (Inr (mensaje 200 ''Libro eliminado''), d2)))"
proof -
  from select_owner_found [OF assms(2,3)] obtain rows row where
    "query e (SelectOwner i) d = Inr (rows, d)" "\<not> length_is_0 rows"
    "first_row rows = Inr row" "get_prop row ''usuario_id'' = js_int_or_null (usuario_id b)"
    by blast
  with assms(1,4,5) show ?thesis
    by (simp add: delete_libro_try_def)
qed

lemma put_update_ok:
  assumes "faults e (UpdateLibro (get_prop body ''titulo'') (get_prop body ''autor'')
             (get_prop body ''anio'') i) d = None"
  shows "put_libro_update e i body d =
           (Inr (mensaje 200 ''Libro actualizado''),
            d\<lparr>libros := map (\<lambda>b. if libro_id b = i
                                 then set_libro (get_prop body ''titulo'') (get_prop body ''autor'')
                                        (get_prop body ''anio'') b
                                 else b) (libros d)\<rparr>)"
  using assms by (simp add: put_libro_update_def query_ok)

lemma delete_falsy:
  "\<not> truthy (get_prop body ''usuarioId'') \<Longrightarrow>
   delete_libro e i body d = (mensaje 400 ''Se requiere usuarioId para eliminar'', d)"
  by (simp add: delete_libro_def delete_libro_try_def catch_def)

lemma put_falsy:
  "\<not> truthy (get_prop body ''usuarioId'') \<Longrightarrow>
   put_libro_try e i body d = put_libro_update e i body d"
  by (simp add: put_libro_try_def)

lemma delete_missing:
  assumes "truthy (get_prop body ''usuarioId'')"
    and "faults e (SelectOwner i) d = None"
    and "\<forall>b\<in>set (libros d). libro_id b \<noteq> i"
  shows "delete_libro e i body d = (mensaje 404 ''Libro no encontrado'', d)"
proof -
  from select_owner_missing [OF assms(2,3)] obtain rows where
    "query e (SelectOwner i) d = Inr (rows, d)" "length_is_0 rows" by blast
  with assms(1) show ?thesis
    by (simp add: delete_libro_def delete_libro_try_def catch_def)
qed

lemma delete_keeps_unless_200:
  "status (fst (delete_libro e i body d)) \<noteq> 200 \<Longrightarrow> snd (delete_libro e i body d) = d"
  by (auto simp: delete_libro_def delete_libro_try_def catch_def query_def mensaje_def Let_def
      split: option.splits sum.splits prod.splits if_splits)

text \<open>The example data, evaluated.\<close>

lemma shelf_libros: "libros shelf = [rayuela, pedro_paramo, el_tunel]"
  by (simp add: shelf_def)

lemma shelf_ids:
  "libro_id rayuela = 1" "libro_id pedro_paramo = 2" "libro_id el_tunel = 3"
  by (simp_all add: rayuela_def pedro_paramo_def el_tunel_def)

lemma shelf_owners:
  "usuario_id rayuela = Some 5" "usuario_id pedro_paramo = None" "usuario_id el_tunel = Some 0"
  by (simp_all add: rayuela_def pedro_paramo_def el_tunel_def)

lemma steady_faults: "faults steady q d = None"
  by (simp add: steady_def)

lemma edit_props:
  "map_of edit ''usuarioId'' = None"
  "get_prop edit ''usuarioId'' = JUndefined"
  "get_prop edit ''titulo'' = JStr ''Ficciones''"
  "get_prop edit ''autor'' = JStr ''Borges''"
  "get_prop edit ''anio'' = JNum (Fin 1944)"
  by (simp_all add: edit_def get_prop_def)

lemma edit_as_props:
  "get_prop (edit_as u) ''usuarioId'' = u"
  "get_prop (edit_as u) ''titulo'' = JStr ''Ficciones''"
  "get_prop (edit_as u) ''autor'' = JStr ''Borges''"
  "get_prop (edit_as u) ''anio'' = JNum (Fin 1944)"
  by (simp_all add: edit_as_def edit_def get_prop_def)

lemma filter_shelf:
  "filter (\<lambda>b. libro_id b = 1) (libros shelf) = [rayuela]"
  "filter (\<lambda>b. libro_id b = 2) (libros shelf) = [pedro_paramo]"
  "filter (\<lambda>b. libro_id b = 3) (libros shelf) = [el_tunel]"
  "filter (\<lambda>b. libro_id b = 9) (libros shelf) = []"
  by (simp_all add: shelf_libros shelf_ids)

lemma Number_samples:
  "Number (JNum n) = Inr n"
  "Number (js_int_or_null (Some k)) = Inr (Fin (of_int k))"
  "Number (js_int_or_null None) = Inr (Fin 0)"
  by (simp_all add: Number_stored) (simp add: Number_def)

lemma delete_shelf_1: "filter (\<lambda>b. libro_id b \<noteq> 1) (libros shelf) = [pedro_paramo, el_tunel]"
  by (simp add: shelf_libros shelf_ids)

lemma put_libro_cases:
  "(snd (put_libro e i body d) = d \<and> status (fst (put_libro e i body d)) \<noteq> 200) \<or>
   put_libro e i body d =
     (mensaje 200 ''Libro actualizado'',
      d\<lparr>libros := map (\<lambda>b. if libro_id b = i
                           then set_libro (get_prop body ''titulo'') (get_prop body ''autor'')
                                  (get_prop body ''anio'') b
                           else b) (libros d)\<rparr>)"
  by (auto simp: put_libro_def put_libro_try_def put_libro_update_def catch_def query_def
      mensaje_def Let_def split: option.splits sum.splits prod.splits if_splits)

lemma set_libro_keeps: "libro_id (set_libro t a y b) = libro_id b"
  "usuario_id (set_libro t a y b) = usuario_id b"
  by (simp_all add: set_libro_def)

lemma frame_same:
  "list_all2 (\<lambda>b b'. libro_id b' = libro_id b \<and> usuario_id b' = usuario_id b \<and>
      (libro_id b \<noteq> i \<longrightarrow> b' = b) \<and> (b' = b \<or> b' = set_libro t a y b)) bs bs"
  by (simp add: list_all2_same)

lemma frame_updated:
  "list_all2 (\<lambda>b b'. libro_id b' = libro_id b \<and> usuario_id b' = usuario_id b \<and>
      (libro_id b \<noteq> i \<longrightarrow> b' = b) \<and> (b' = b \<or> b' = set_libro t a y b)) bs
     (map (\<lambda>b. if libro_id b = i then set_libro t a y b else b) bs)"
  by (induction bs) (simp_all add: set_libro_keeps)

lemma filter_fresh:
  "\<forall>u\<in>set us. correo u \<noteq> c \<Longrightarrow> filter (\<lambda>u. correo u = c) us = []"
  by (induction us) auto

text \<open>Registration up to the INSERT, for an address the table does not hold.\<close>

lemma registro_fresh:
  assumes "truthy (get_prop body ''correo'')" and "truthy (get_prop body ''contrasena'')"
    and "\<forall>u\<in>set (usuarios d). correo u \<noteq> get_prop body ''correo''"
    and "faults e (SelectUsuarioId (get_prop body ''correo'')) d = None"
    and "bcrypt_hash e (get_prop body ''contrasena'') 10 = Inr h"
  shows "registro_try e body d =
           (case query e (InsertUsuario (get_prop body ''correo'') (JStr h)
                            (or_null (get_prop body ''nombre''))) d of
              Inl x \<Rightarrow> (Inl x, d)
            | Inr (r, d2) \<Rightarrow>
                (Inr \<lparr>status = 200,
                      json = JObj [(''mensaje'', JStr ''Usuario registrado correctamente''),
                                   (''id'', insertId r)]\<rparr>, d2))"
  using assms
  by (simp add: registro_try_def query_ok filter_fresh length_gt_0_def)

lemma registro_duplicate:
  assumes "truthy (get_prop body ''correo'')" and "truthy (get_prop body ''contrasena'')"
    and "filter (\<lambda>u. correo u = get_prop body ''correo'') (usuarios d) \<noteq> []"
    and "faults e (SelectUsuarioId (get_prop body ''correo'')) d = None"
  shows "registro e body d = (mensaje 409 ya_registrado, d)"
  using assms
  by (simp add: registro_def registro_try_def catch_def query_ok length_gt_0_def)

lemma registro_accepted:
  assumes "truthy (get_prop body ''correo'')" and "truthy (get_prop body ''contrasena'')"
    and "\<forall>u\<in>set (usuarios d). correo u \<noteq> get_prop body ''correo''"
    and "faults e (SelectUsuarioId (get_prop body ''correo'')) d = None"
    and "bcrypt_hash e (get_prop body ''contrasena'') 10 = Inr h"
    and "faults e (InsertUsuario (get_prop body ''correo'') (JStr h)
           (or_null (get_prop body ''nombre''))) d = None"
  shows "registro e body d =
           (\<lparr>status = 200,
             json = JObj [(''mensaje'', JStr ''Usuario registrado correctamente''),
                          (''id'', js_int (usuarios_auto_increment d))]\<rparr>,
            snd (execute (InsertUsuario (get_prop body ''correo'') (JStr h)
                            (or_null (get_prop body ''nombre''))) d))"
  using assms(6)
  by (simp add: registro_def registro_fresh [OF assms(1-5)] query_ok catch_def insertId_def)

lemma inserted_holds:
  "filter (\<lambda>u. correo u = c) (usuarios (snd (execute (InsertUsuario c h n) d))) \<noteq> []"
  by simp

lemma inserted_only:
  "\<forall>u\<in>set (usuarios d). correo u \<noteq> c \<Longrightarrow>
   filter (\<lambda>u. correo u = c) (usuarios (snd (execute (InsertUsuario c h n) d))) =
     [\<lparr>user_id = usuarios_auto_increment d, correo = c, contrasena = h, nombre = n\<rparr>]"
  by (simp add: filter_fresh)

lemma ana_props:
  "get_prop ana ''correo'' = JStr ''ana@example.org''"
  "get_prop ana ''contrasena'' = JStr ''secreto''"
  "get_prop ana ''nombre'' = JStr ''Ana''"
  by (simp_all add: ana_def get_prop_def)

lemma ana_again_props:
  "get_prop ana_again ''correo'' = JStr ''ana@example.org''"
  "get_prop ana_again ''contrasena'' = JStr ''otra''"
  by (simp_all add: ana_again_def get_prop_def)

lemma raced_insert:
  "faults raced (InsertUsuario c h n) d = Some (StoreError ''ER_DUP_ENTRY'')"
  "faults raced (SelectUsuarioId c) d = None"
  by (simp_all add: raced_def)

lemma login_row_props:
  "get_prop [(''id'', a), (''correo'', b), (''nombre'', c), (''contrasena'', h)] ''contrasena'' = h"
  "delete_prop [(''id'', a), (''correo'', b), (''nombre'', c), (''contrasena'', h)] ''contrasena'' =
     [(''id'', a), (''correo'', b), (''nombre'', c)]"
  by (simp_all add: get_prop_def delete_prop_def)

lemma login_unknown:
  assumes "truthy (get_prop body ''correo'')" and "truthy (get_prop body ''contrasena'')"
    and "\<forall>u\<in>set (usuarios d). correo u \<noteq> get_prop body ''correo''"
    and "faults e (SelectUsuario (get_prop body ''correo'')) d = None"
  shows "login e body d = (mensaje 401 incorrectos, d)"
  using assms
  by (simp add: login_def login_try_def catch_def query_ok filter_fresh length_is_0_def)

text \<open>Login for an address the table holds: the first row decides.\<close>

lemma login_known:
  assumes "truthy (get_prop body ''correo'')" and "truthy (get_prop body ''contrasena'')"
    and "filter (\<lambda>u. correo u = get_prop body ''correo'') (usuarios d) = u # us"
    and "faults e (SelectUsuario (get_prop body ''correo'')) d = None"
  shows "login_try e body d =
           (case bcrypt_compare e (get_prop body ''contrasena'') (contrasena u) of
              Inl x \<Rightarrow> (Inl x, d)
            | Inr ok \<Rightarrow>
                if \<not> ok then (Inr (mensaje 401 incorrectos), d)
                else (Inr \<lparr>status = 200,
                           json = JObj [(''mensaje'', JStr ''Login exitoso''),
                                        (''usuario'',
                                         JObj [(''id'', js_int (user_id u)),
                                               (''correo'', correo u),
                                               (''nombre'', nombre u)])]\<rparr>, d))"
  using assms
  by (simp add: login_try_def query_ok length_is_0_def first_row_def login_row_props
      split: sum.split)

lemma ana_wrong_props:
  "get_prop ana_wrong ''correo'' = JStr ''ana@example.org''"
  "get_prop ana_wrong ''contrasena'' = JStr ''errada''"
  by (simp_all add: ana_wrong_def get_prop_def)

lemma nobody_props:
  "get_prop nobody ''correo'' = JStr ''nadie@example.org''"
  "get_prop nobody ''contrasena'' = JStr ''secreto''"
  by (simp_all add: nobody_def get_prop_def)

lemma ana_number_props:
  "get_prop ana_number ''correo'' = JStr ''ana@example.org''"
  "get_prop ana_number ''contrasena'' = JNum (Fin 12345)"
  by (simp_all add: ana_number_def get_prop_def)

lemma nobody_number_props:
  "get_prop nobody_number ''correo'' = JStr ''nadie@example.org''"
  "get_prop nobody_number ''contrasena'' = JNum (Fin 12345)"
  by (simp_all add: nobody_number_def get_prop_def)

lemma members_rows:
  "filter (\<lambda>u. correo u = JStr ''ana@example.org'') (usuarios members) = [ana_row]"
  "\<forall>v\<in>set (usuarios members). correo v \<noteq> JStr ''nadie@example.org''"
  by (simp_all add: members_def ana_row_def)

lemma steady_compare:
  "bcrypt_compare steady (JStr ''errada'') (contrasena ana_row) = Inr False"
  "bcrypt_compare steady (JNum (Fin 12345)) (contrasena ana_row) = Inl HashError"
  by (simp_all add: steady_def toy_compare_def ana_row_def)

subsection \<open>Update without an owner in the body\<close>

text \<open>
  C1. An update whose body has no \<^verbatim>\<open>usuarioId\<close> never consults the stored owner: whatever
  the tables hold, and whether or not the guard's SELECT would have been accepted, the
  handler runs the UPDATE, and when the store accepts that statement it answers 200
  with \<^verbatim>\<open>Libro actualizado\<close>. When no book has the id, the UPDATE touches no row, the
  tables are as before, and the answer is the same 200.
\<close>

theorem put_without_usuarioId:
  assumes "map_of body ''usuarioId'' = None"
    and "faults e (UpdateLibro (get_prop body ''titulo'') (get_prop body ''autor'')
           (get_prop body ''anio'') i) d = None"
  shows "fst (put_libro e i body d) = mensaje 200 ''Libro actualizado'' \<and>
         snd (put_libro e i body d) =
           d\<lparr>libros := map (\<lambda>b. if libro_id b = i
                                then set_libro (get_prop body ''titulo'') (get_prop body ''autor'')
                                       (get_prop body ''anio'') b
                                else b) (libros d)\<rparr> \<and>
         ((\<forall>b\<in>set (libros d). libro_id b \<noteq> i) \<longrightarrow> snd (put_libro e i body d) = d)"
  using assms
  by (simp add: put_libro_def put_libro_try_def put_libro_update_def catch_def query_ok
      get_prop_absent update_no_match)

theorem put_without_usuarioId_witness:
  "map_of edit ''usuarioId'' = None \<and>
   filter (\<lambda>b. libro_id b = 9) (libros shelf) = [] \<and>
   fst (put_libro steady 9 edit shelf) = mensaje 200 ''Libro actualizado'' \<and>
   snd (put_libro steady 9 edit shelf) = shelf \<and>
   usuario_id rayuela = Some 5 \<and>
   fst (put_libro steady 1 edit shelf) = mensaje 200 ''Libro actualizado''"
proof -
  have absent: "map_of edit ''usuarioId'' = None"
    by (rule edit_props)
  have none: "\<forall>b\<in>set (libros shelf). libro_id b \<noteq> 9"
    by (simp add: shelf_libros shelf_ids)
  have empty: "filter (\<lambda>b. libro_id b = 9) (libros shelf) = []"
    by (simp add: shelf_libros shelf_ids)
  show ?thesis
    using put_without_usuarioId [OF absent steady_faults, of 9 shelf]
      put_without_usuarioId [OF absent steady_faults, of 1 shelf]
      absent none empty shelf_owners(1)
    by blast
qed

text \<open>
  C8. Whatever the request and whatever the store does with it, an update leaves the
  users table alone and changes the books table at most in this way: every row keeps
  its key and its stored owner, a row with another key is the row it was, and a row
  with the targeted key is either the row it was or that row with the title, the
  author and the year of the body written over the old ones. When the answer is 200,
  the targeted rows are the overwritten ones. A \<^verbatim>\<open>usuarioId\<close> in the body is only compared,
  never stored.
\<close>

theorem put_libro_frame:
  "usuarios (snd (put_libro e i body d)) = usuarios d \<and>
   usuarios_auto_increment (snd (put_libro e i body d)) = usuarios_auto_increment d \<and>
   list_all2 (\<lambda>b b'. libro_id b' = libro_id b \<and> usuario_id b' = usuario_id b \<and>
                (libro_id b \<noteq> i \<longrightarrow> b' = b) \<and>
                (b' = b \<or> b' = set_libro (get_prop body ''titulo'') (get_prop body ''autor'')
                                 (get_prop body ''anio'') b))
      (libros d) (libros (snd (put_libro e i body d))) \<and>
   (status (fst (put_libro e i body d)) = 200 \<longrightarrow>
      libros (snd (put_libro e i body d)) =
        map (\<lambda>b. if libro_id b = i
                 then set_libro (get_prop body ''titulo'') (get_prop body ''autor'')
                        (get_prop body ''anio'') b
                 else b) (libros d))"
  using put_libro_cases [of e i body d]
proof (elim disjE conjE)
  assume "snd (put_libro e i body d) = d" "status (fst (put_libro e i body d)) \<noteq> 200"
  then show ?thesis
    by (simp add: frame_same)
next
  assume "put_libro e i body d =
     (mensaje 200 ''Libro actualizado'',
      d\<lparr>libros := map (\<lambda>b. if libro_id b = i
                           then set_libro (get_prop body ''titulo'') (get_prop body ''autor'')
                                  (get_prop body ''anio'') b
                           else b) (libros d)\<rparr>)"
  then show ?thesis
    by (simp add: frame_updated)
qed

theorem put_libro_frame_witness:
  "status (fst (put_libro steady 1 (edit_as (JNum (Fin 9))) shelf)) \<noteq> 200 \<and>
   status (fst (put_libro steady 1 (edit_as (JNum (Fin 5))) shelf)) = 200 \<and>
   libros (snd (put_libro steady 1 (edit_as (JNum (Fin 5))) shelf)) =
     [set_libro (JStr ''Ficciones'') (JStr ''Borges'') (JNum (Fin 1944)) rayuela,
      pedro_paramo, el_tunel] \<and>
   usuario_id (set_libro (JStr ''Ficciones'') (JStr ''Borges'') (JNum (Fin 1944)) rayuela) = Some 5"
proof -
  have stored: "Number (js_int_or_null (usuario_id rayuela)) = Inr (Fin 5)"
    by (simp add: shelf_owners Number_samples)
  have t: "truthy (get_prop (edit_as (JNum (Fin 5))) ''usuarioId'')"
    "truthy (get_prop (edit_as (JNum (Fin 9))) ''usuarioId'')"
    by (simp_all add: edit_as_props)
  have c: "Number (get_prop (edit_as (JNum (Fin 5))) ''usuarioId'') = Inr (Fin 5)"
    "Number (get_prop (edit_as (JNum (Fin 9))) ''usuarioId'') = Inr (Fin 9)"
    by (simp_all add: edit_as_props Number_samples)
  have ok: "status (fst (put_libro steady 1 (edit_as (JNum (Fin 5))) shelf)) = 200"
    by (simp add: put_libro_def put_guarded [OF t(1) steady_faults filter_shelf(1) stored c(1)]
        put_update_ok steady_faults catch_def strict_neq_iff mensaje_def)
  have no: "status (fst (put_libro steady 1 (edit_as (JNum (Fin 9))) shelf)) \<noteq> 200"
    by (simp add: put_libro_def put_guarded [OF t(2) steady_faults filter_shelf(1) stored c(2)]
        catch_def strict_neq_iff mensaje_def)
  from ok put_libro_frame [of steady 1 "edit_as (JNum (Fin 5))" shelf]
  have "libros (snd (put_libro steady 1 (edit_as (JNum (Fin 5))) shelf)) =
      map (\<lambda>b. if libro_id b = 1
               then set_libro (get_prop (edit_as (JNum (Fin 5))) ''titulo'')
                      (get_prop (edit_as (JNum (Fin 5))) ''autor'')
                      (get_prop (edit_as (JNum (Fin 5))) ''anio'') b
               else b) (libros shelf)"
    by blast
  with ok no show ?thesis
    by (simp add: edit_as_props shelf_libros shelf_ids set_libro_keeps shelf_owners)
qed

subsection \<open>The ownership comparison\<close>

text \<open>
  C2. An update or a delete that supplies a \<^verbatim>\<open>usuarioId\<close> the handler takes as present (a
  truthy one) for a book that exists is let through to its statement exactly when
  \<^verbatim>\<open>Number\<close> of the stored owner and \<^verbatim>\<open>Number\<close> of the claimed owner are the same number
  and that number is not NaN; otherwise the answer is 403. So the string \<^verbatim>\<open>5\<close> and the
  number 5 coerce to the same value, and a string that is no numeric literal coerces
  to NaN, which equals no stored value. The status 200 stands for the request being
  let through, the store accepting the statements.
\<close>

theorem ownership_guard_numeric:
  assumes "truthy (get_prop body ''usuarioId'')"
    and "filter (\<lambda>b. libro_id b = i) (libros d) = b # bs"
    and "Number (js_int_or_null (usuario_id b)) = Inr stored"
    and "Number (get_prop body ''usuarioId'') = Inr claimed"
    and "faults e (SelectOwner i) d = None"
    and "faults e (UpdateLibro (get_prop body ''titulo'') (get_prop body ''autor'')
           (get_prop body ''anio'') i) d = None"
    and "faults e (DeleteLibro i) d = None"
  shows "status (fst (put_libro e i body d)) =
           (if stored = claimed \<and> claimed \<noteq> NaN then 200 else 403) \<and>
         status (fst (delete_libro e i body d)) =
           (if stored = claimed \<and> claimed \<noteq> NaN then 200 else 403) \<and>
         Number (JStr ''5'') = Number (JNum (Fin 5)) \<and>
         Number (JStr ''abc'') = Inr NaN"
proof -
  have "status (fst (put_libro e i body d)) =
           (if stored = claimed \<and> claimed \<noteq> NaN then 200 else 403)"
    using assms(6)
    by (simp add: put_libro_def put_guarded [OF assms(1,5,2,3,4)] put_update_ok catch_def
        strict_neq_iff mensaje_def)
  moreover have "status (fst (delete_libro e i body d)) =
           (if stored = claimed \<and> claimed \<noteq> NaN then 200 else 403)"
    using assms(7)
    by (simp add: delete_libro_def delete_guarded [OF assms(1,5,2,3,4)] query_ok catch_def
        strict_neq_iff mensaje_def)
  moreover have "Number (JStr ''5'') = Number (JNum (Fin 5))"
    by (simp add: Number_string_5) (simp add: Number_def)
  ultimately show ?thesis
    by (simp add: Number_string_abc)
qed

theorem ownership_guard_numeric_witness:
  "truthy (JStr ''5'') \<and> truthy (JNum (Fin 6)) \<and> truthy (JStr ''abc'') \<and>
   filter (\<lambda>b. libro_id b = 1) (libros shelf) = [rayuela] \<and>
   usuario_id rayuela = Some 5 \<and>
   status (fst (put_libro steady 1 (edit_as (JStr ''5'')) shelf)) = 200 \<and>
   status (fst (delete_libro steady 1 (edit_as (JStr ''5'')) shelf)) = 200 \<and>
   status (fst (put_libro steady 1 (edit_as (JNum (Fin 6))) shelf)) = 403 \<and>
   status (fst (delete_libro steady 1 (edit_as (JNum (Fin 6))) shelf)) = 403 \<and>
   status (fst (put_libro steady 1 (edit_as (JStr ''abc'')) shelf)) = 403 \<and>
   status (fst (delete_libro steady 1 (edit_as (JStr ''abc'')) shelf)) = 403"
proof -
  have stored: "Number (js_int_or_null (usuario_id rayuela)) = Inr (Fin 5)"
    by (simp add: shelf_owners Number_samples)
  have five: "Number (get_prop (edit_as (JStr ''5'')) ''usuarioId'') = Inr (Fin 5)"
    by (simp add: edit_as_props Number_string_5)
  have six: "Number (get_prop (edit_as (JNum (Fin 6))) ''usuarioId'') = Inr (Fin 6)"
    by (simp add: edit_as_props Number_samples)
  have abc: "Number (get_prop (edit_as (JStr ''abc'')) ''usuarioId'') = Inr NaN"
    by (simp add: edit_as_props Number_string_abc)
  have t5: "truthy (get_prop (edit_as (JStr ''5'')) ''usuarioId'')"
    and t6: "truthy (get_prop (edit_as (JNum (Fin 6))) ''usuarioId'')"
    and tabc: "truthy (get_prop (edit_as (JStr ''abc'')) ''usuarioId'')"
    by (simp_all add: edit_as_props)
  show ?thesis
    using ownership_guard_numeric [OF t5 filter_shelf(1) stored five steady_faults steady_faults steady_faults]
      ownership_guard_numeric [OF t6 filter_shelf(1) stored six steady_faults steady_faults steady_faults]
      ownership_guard_numeric [OF tabc filter_shelf(1) stored abc steady_faults steady_faults steady_faults]
    by (simp add: filter_shelf shelf_owners)
qed


subsection \<open>Delete\<close>

text \<open>
  C3. The outcomes of a delete. A body without \<^verbatim>\<open>usuarioId\<close> is answered 400, whatever the
  targeted book and its owner, and the tables stay as they were. With a \<^verbatim>\<open>usuarioId\<close>
  the handler takes as present: no book with the id gives 404; a book whose stored
  owner does not match the claimed one as numbers gives 403; a match runs the DELETE,
  which removes the rows with that id, and answers 200. The tables change only under
  a 200. (The store is taken to accept the statements of the case at hand.)
\<close>

theorem delete_libro_outcomes:
  "(map_of body ''usuarioId'' = None \<longrightarrow>
      delete_libro e i body d = (mensaje 400 ''Se requiere usuarioId para eliminar'', d)) \<and>
   (truthy (get_prop body ''usuarioId'') \<and> faults e (SelectOwner i) d = None \<and>
    (\<forall>b\<in>set (libros d). libro_id b \<noteq> i) \<longrightarrow>
      delete_libro e i body d = (mensaje 404 ''Libro no encontrado'', d)) \<and>
   (truthy (get_prop body ''usuarioId'') \<and> faults e (SelectOwner i) d = None \<and>
    filter (\<lambda>b. libro_id b = i) (libros d) = b # bs \<and>
    Number (js_int_or_null (usuario_id b)) = Inr stored \<and>
    Number (get_prop body ''usuarioId'') = Inr claimed \<and>
    \<not> (stored = claimed \<and> claimed \<noteq> NaN) \<longrightarrow>
      delete_libro e i body d = (mensaje 403 ''No autorizado para eliminar este libro'', d)) \<and>
   (truthy (get_prop body ''usuarioId'') \<and> faults e (SelectOwner i) d = None \<and>
    filter (\<lambda>b. libro_id b = i) (libros d) = b # bs \<and>
    Number (js_int_or_null (usuario_id b)) = Inr stored \<and>
    Number (get_prop body ''usuarioId'') = Inr claimed \<and>
    stored = claimed \<and> claimed \<noteq> NaN \<and> faults e (DeleteLibro i) d = None \<longrightarrow>
      delete_libro e i body d =
        (mensaje 200 ''Libro eliminado'',
         d\<lparr>libros := filter (\<lambda>b. libro_id b \<noteq> i) (libros d)\<rparr>)) \<and>
   (status (fst (delete_libro e i body d)) \<noteq> 200 \<longrightarrow> snd (delete_libro e i body d) = d)"
proof (intro conjI impI)
  assume "map_of body ''usuarioId'' = None"
  then show "delete_libro e i body d = (mensaje 400 ''Se requiere usuarioId para eliminar'', d)"
    by (simp add: delete_falsy get_prop_absent)
next
  assume "truthy (get_prop body ''usuarioId'') \<and> faults e (SelectOwner i) d = None \<and>
    (\<forall>b\<in>set (libros d). libro_id b \<noteq> i)"
  then show "delete_libro e i body d = (mensaje 404 ''Libro no encontrado'', d)"
    by (simp add: delete_missing)
next
  assume a: "truthy (get_prop body ''usuarioId'') \<and> faults e (SelectOwner i) d = None \<and>
    filter (\<lambda>b. libro_id b = i) (libros d) = b # bs \<and>
    Number (js_int_or_null (usuario_id b)) = Inr stored \<and>
    Number (get_prop body ''usuarioId'') = Inr claimed \<and>
    \<not> (stored = claimed \<and> claimed \<noteq> NaN)"
  then have "delete_libro_try e i body d =
      (Inr (mensaje 403 ''No autorizado para eliminar este libro''), d)"
    using delete_guarded [of body e i d b bs stored claimed] by (simp add: strict_neq_iff)
  then show "delete_libro e i body d =
      (mensaje 403 ''No autorizado para eliminar este libro'', d)"
    by (simp add: delete_libro_def catch_def)
next
  assume a: "truthy (get_prop body ''usuarioId'') \<and> faults e (SelectOwner i) d = None \<and>
    filter (\<lambda>b. libro_id b = i) (libros d) = b # bs \<and>
    Number (js_int_or_null (usuario_id b)) = Inr stored \<and>
    Number (get_prop body ''usuarioId'') = Inr claimed \<and>
    stored = claimed \<and> claimed \<noteq> NaN \<and> faults e (DeleteLibro i) d = None"
  then have "delete_libro_try e i body d =
      (Inr (mensaje 200 ''Libro eliminado''),
       d\<lparr>libros := filter (\<lambda>b. libro_id b \<noteq> i) (libros d)\<rparr>)"
    using delete_guarded [of body e i d b bs stored claimed]
    by (simp add: strict_neq_iff query_ok)
  then show "delete_libro e i body d =
      (mensaje 200 ''Libro eliminado'', d\<lparr>libros := filter (\<lambda>b. libro_id b \<noteq> i) (libros d)\<rparr>)"
    by (simp add: delete_libro_def catch_def)
next
  assume "status (fst (delete_libro e i body d)) \<noteq> 200"
  then show "snd (delete_libro e i body d) = d"
    by (rule delete_keeps_unless_200)
qed


theorem delete_libro_outcomes_witness:
  "usuario_id pedro_paramo = None \<and>
   delete_libro steady 2 edit shelf =
     (mensaje 400 ''Se requiere usuarioId para eliminar'', shelf) \<and>
   delete_libro steady 9 (edit_as (JNum (Fin 5))) shelf =
     (mensaje 404 ''Libro no encontrado'', shelf) \<and>
   delete_libro steady 1 (edit_as (JNum (Fin 6))) shelf =
     (mensaje 403 ''No autorizado para eliminar este libro'', shelf) \<and>
   delete_libro steady 1 (edit_as (JStr ''5'')) shelf =
     (mensaje 200 ''Libro eliminado'', shelf\<lparr>libros := [pedro_paramo, el_tunel]\<rparr>)"
proof -
  have none: "\<forall>b\<in>set (libros shelf). libro_id b \<noteq> 9"
    by (simp add: shelf_libros shelf_ids)
  have stored: "Number (js_int_or_null (usuario_id rayuela)) = Inr (Fin 5)"
    by (simp add: shelf_owners Number_samples)
  have five: "Number (get_prop (edit_as (JStr ''5'')) ''usuarioId'') = Inr (Fin 5)"
    by (simp add: edit_as_props Number_string_5)
  have six: "Number (get_prop (edit_as (JNum (Fin 6))) ''usuarioId'') = Inr (Fin 6)"
    by (simp add: edit_as_props Number_samples)
  have t5: "truthy (get_prop (edit_as (JStr ''5'')) ''usuarioId'')"
    and t6: "truthy (get_prop (edit_as (JNum (Fin 6))) ''usuarioId'')"
    and tn: "truthy (get_prop (edit_as (JNum (Fin 5))) ''usuarioId'')"
    by (simp_all add: edit_as_props)
  have a: "delete_libro steady 2 edit shelf =
     (mensaje 400 ''Se requiere usuarioId para eliminar'', shelf)"
    using delete_libro_outcomes [where body = edit and e = steady and i = 2 and d = shelf]
      edit_props(1) by blast
  have b: "delete_libro steady 9 (edit_as (JNum (Fin 5))) shelf =
     (mensaje 404 ''Libro no encontrado'', shelf)"
    using delete_libro_outcomes [where body = "edit_as (JNum (Fin 5))" and e = steady
        and i = 9 and d = shelf] tn none steady_faults by blast
  have c: "delete_libro steady 1 (edit_as (JNum (Fin 6))) shelf =
     (mensaje 403 ''No autorizado para eliminar este libro'', shelf)"
    using delete_libro_outcomes [where body = "edit_as (JNum (Fin 6))" and e = steady
        and i = 1 and d = shelf and b = rayuela and bs = "[]" and stored = "Fin 5"
        and claimed = "Fin 6"] t6 filter_shelf(1) stored six steady_faults by simp
  have d: "delete_libro steady 1 (edit_as (JStr ''5'')) shelf =
     (mensaje 200 ''Libro eliminado'', shelf\<lparr>libros := [pedro_paramo, el_tunel]\<rparr>)"
    using delete_libro_outcomes [where body = "edit_as (JStr ''5'')" and e = steady
        and i = 1 and d = shelf and b = rayuela and bs = "[]" and stored = "Fin 5"
        and claimed = "Fin 5"] t5 filter_shelf(1) stored five steady_faults
    by (simp add: delete_shelf_1)
  from a b c d show ?thesis
    by (simp add: shelf_owners)
qed

subsection \<open>Falsy and ownerless\<close>

text \<open>
  C9. A \<^verbatim>\<open>usuarioId\<close> that is falsy, such as the number 0 or the empty string, is treated as
  if it were missing: the delete is answered 400 and changes nothing, even when the
  book's stored owner is 0, and the update goes straight to its UPDATE statement
  without the guard and answers 200 when the store accepts that statement.
\<close>

theorem falsy_usuarioId_is_absent:
  assumes "\<not> truthy (get_prop body ''usuarioId'')"
  shows "delete_libro e i body d = (mensaje 400 ''Se requiere usuarioId para eliminar'', d) \<and>
         put_libro e i body d =
           catch ''Error al actualizar libro'' (put_libro_update e i body d) \<and>
         (faults e (UpdateLibro (get_prop body ''titulo'') (get_prop body ''autor'')
            (get_prop body ''anio'') i) d = None \<longrightarrow>
          fst (put_libro e i body d) = mensaje 200 ''Libro actualizado'') \<and>
         \<not> truthy (JNum (Fin 0)) \<and> \<not> truthy (JStr [])"
  using assms
  by (simp add: delete_falsy put_libro_def put_falsy put_update_ok catch_def)

theorem falsy_usuarioId_is_absent_witness:
  "filter (\<lambda>b. libro_id b = 3) (libros shelf) = [el_tunel] \<and>
   usuario_id el_tunel = Some 0 \<and>
   delete_libro steady 3 (edit_as (JNum (Fin 0))) shelf =
     (mensaje 400 ''Se requiere usuarioId para eliminar'', shelf) \<and>
   usuario_id rayuela = Some 5 \<and>
   fst (put_libro steady 1 (edit_as (JNum (Fin 0))) shelf) = mensaje 200 ''Libro actualizado'' \<and>
   fst (put_libro steady 1 (edit_as (JStr [])) shelf) = mensaje 200 ''Libro actualizado''"
proof -
  have z: "\<not> truthy (get_prop (edit_as (JNum (Fin 0))) ''usuarioId'')"
    and e: "\<not> truthy (get_prop (edit_as (JStr [])) ''usuarioId'')"
    by (simp_all add: edit_as_props)
  have a: "delete_libro steady 3 (edit_as (JNum (Fin 0))) shelf =
     (mensaje 400 ''Se requiere usuarioId para eliminar'', shelf)"
    by (rule falsy_usuarioId_is_absent [OF z, THEN conjunct1])
  have b: "fst (put_libro steady 1 (edit_as (JNum (Fin 0))) shelf) =
     mensaje 200 ''Libro actualizado''"
    by (rule falsy_usuarioId_is_absent [OF z, THEN conjunct2, THEN conjunct2, THEN conjunct1,
          THEN mp, OF steady_faults])
  have c: "fst (put_libro steady 1 (edit_as (JStr [])) shelf) =
     mensaje 200 ''Libro actualizado''"
    by (rule falsy_usuarioId_is_absent [OF e, THEN conjunct2, THEN conjunct2, THEN conjunct1,
          THEN mp, OF steady_faults])
  from a b c show ?thesis
    by (simp add: filter_shelf shelf_owners)
qed

text \<open>
  C10. For a book stored with a NULL owner, \<^verbatim>\<open>Number\<close> of the stored owner is 0, the same as
  \<^verbatim>\<open>Number\<close> of the string \<^verbatim>\<open>0\<close>. So a delete or an update claiming the string \<^verbatim>\<open>0\<close> passes
  the guard, while a claimed owner that coerces to anything but 0 is answered 403.
\<close>

theorem ownerless_book_guard:
  assumes "filter (\<lambda>b. libro_id b = i) (libros d) = b # bs"
    and "usuario_id b = None"
    and "faults e (SelectOwner i) d = None"
  shows "(get_prop body ''usuarioId'' = JStr ''0'' \<and> faults e (DeleteLibro i) d = None \<longrightarrow>
            status (fst (delete_libro e i body d)) = 200) \<and>
         (get_prop body ''usuarioId'' = JStr ''0'' \<and>
          faults e (UpdateLibro (get_prop body ''titulo'') (get_prop body ''autor'')
            (get_prop body ''anio'') i) d = None \<longrightarrow>
            status (fst (put_libro e i body d)) = 200) \<and>
         (truthy (get_prop body ''usuarioId'') \<and>
          Number (get_prop body ''usuarioId'') = Inr claimed \<and> claimed \<noteq> Fin 0 \<longrightarrow>
            status (fst (delete_libro e i body d)) = 403 \<and>
            status (fst (put_libro e i body d)) = 403) \<and>
         Number (js_int_or_null (usuario_id b)) = Number (JStr ''0'')"
proof -
  have stored: "Number (js_int_or_null (usuario_id b)) = Inr (Fin 0)"
    by (simp add: assms(2) Number_samples)
  have zero: "Number (get_prop body ''usuarioId'') = Inr (Fin 0)" "truthy (get_prop body ''usuarioId'')"
    if "get_prop body ''usuarioId'' = JStr ''0''"
    using that by (simp_all add: Number_string_0)
  show ?thesis
  proof (intro conjI impI)
    show "Number (js_int_or_null (usuario_id b)) = Number (JStr ''0'')"
      by (simp add: stored Number_string_0)
  next
    assume a: "get_prop body ''usuarioId'' = JStr ''0'' \<and> faults e (DeleteLibro i) d = None"
    with delete_guarded [OF zero(2) assms(3,1) stored zero(1)]
    show "status (fst (delete_libro e i body d)) = 200"
      by (simp add: delete_libro_def catch_def query_ok strict_neq_iff mensaje_def)
  next
    assume a: "get_prop body ''usuarioId'' = JStr ''0'' \<and>
          faults e (UpdateLibro (get_prop body ''titulo'') (get_prop body ''autor'')
            (get_prop body ''anio'') i) d = None"
    with put_guarded [OF zero(2) assms(3,1) stored zero(1)]
    show "status (fst (put_libro e i body d)) = 200"
      by (simp add: put_libro_def catch_def put_update_ok strict_neq_iff mensaje_def)
  next
    assume a: "truthy (get_prop body ''usuarioId'') \<and>
          Number (get_prop body ''usuarioId'') = Inr claimed \<and> claimed \<noteq> Fin 0"
    then have t: "truthy (get_prop body ''usuarioId'')"
      and c: "Number (get_prop body ''usuarioId'') = Inr claimed" and n: "claimed \<noteq> Fin 0"
      by simp_all
    from n delete_guarded [OF t assms(3,1) stored c]
    show "status (fst (delete_libro e i body d)) = 403"
      by (auto simp: delete_libro_def catch_def strict_neq_iff mensaje_def)
    from n put_guarded [OF t assms(3,1) stored c]
    show "status (fst (put_libro e i body d)) = 403"
      by (auto simp: put_libro_def catch_def strict_neq_iff mensaje_def)
  qed
qed

theorem ownerless_book_guard_witness:
  "filter (\<lambda>b. libro_id b = 2) (libros shelf) = [pedro_paramo] \<and>
   usuario_id pedro_paramo = None \<and>
   status (fst (delete_libro steady 2 (edit_as (JStr ''0'')) shelf)) = 200 \<and>
   status (fst (put_libro steady 2 (edit_as (JStr ''0'')) shelf)) = 200 \<and>
   status (fst (delete_libro steady 2 (edit_as (JNum (Fin 7))) shelf)) = 403 \<and>
   status (fst (put_libro steady 2 (edit_as (JNum (Fin 7))) shelf)) = 403"
proof -
  have seven: "Number (get_prop (edit_as (JNum (Fin 7))) ''usuarioId'') = Inr (Fin 7)"
    by (simp add: edit_as_props Number_samples)
  show ?thesis
    using ownerless_book_guard [OF filter_shelf(2) shelf_owners(2) steady_faults,
        where body = "edit_as (JStr ''0'')"]
      ownerless_book_guard [OF filter_shelf(2) shelf_owners(2) steady_faults,
        where body = "edit_as (JNum (Fin 7))" and claimed = "Fin 7"] seven
    by (simp add: edit_as_props steady_faults filter_shelf shelf_owners)
qed


subsection \<open>Registration\<close>

text \<open>
  C4. Two registrations with the same address, both with address and password present,
  the address not in the table before the first: the first is answered 200 with the
  key the store generated and appends one row; the second is answered 409 and leaves
  the tables exactly as the first left them. (The store accepts the statements and
  the hashing of the first password returns.)
\<close>

theorem registro_twice:
  assumes "get_prop first ''correo'' = c" and "get_prop second ''correo'' = c"
    and "truthy c"
    and "truthy (get_prop first ''contrasena'')" and "truthy (get_prop second ''contrasena'')"
    and "\<forall>u\<in>set (usuarios d). correo u \<noteq> c"
    and "faults e (SelectUsuarioId c) d = None"
    and "bcrypt_hash e (get_prop first ''contrasena'') 10 = Inr h"
    and "faults e (InsertUsuario c (JStr h) (or_null (get_prop first ''nombre''))) d = None"
    and "faults e (SelectUsuarioId c) (snd (registro e first d)) = None"
  shows "fst (registro e first d) =
           \<lparr>status = 200,
            json = JObj [(''mensaje'', JStr ''Usuario registrado correctamente''),
                         (''id'', js_int (usuarios_auto_increment d))]\<rparr> \<and>
         usuarios (snd (registro e first d)) =
           usuarios d @ [\<lparr>user_id = usuarios_auto_increment d, correo = c,
                          contrasena = JStr h, nombre = or_null (get_prop first ''nombre'')\<rparr>] \<and>
         registro e second (snd (registro e first d)) =
           (mensaje 409 ya_registrado, snd (registro e first d))"
proof -
  let ?d1 = "snd (execute (InsertUsuario c (JStr h) (or_null (get_prop first ''nombre''))) d)"
  have one: "registro e first d =
      (\<lparr>status = 200,
        json = JObj [(''mensaje'', JStr ''Usuario registrado correctamente''),
                     (''id'', js_int (usuarios_auto_increment d))]\<rparr>, ?d1)"
    using registro_accepted [of first d e h] assms by simp
  have two: "registro e second ?d1 = (mensaje 409 ya_registrado, ?d1)"
    using registro_duplicate [of second ?d1 e] assms(2,3,5,10) one inserted_holds [of c]
    by simp
  from one two show ?thesis
    by simp
qed

theorem registro_twice_witness:
  "usuarios shelf = [] \<and>
   fst (registro steady ana shelf) =
     \<lparr>status = 200,
      json = JObj [(''mensaje'', JStr ''Usuario registrado correctamente''),
                   (''id'', js_int 1)]\<rparr> \<and>
   usuarios (snd (registro steady ana shelf)) = [ana_row] \<and>
   registro steady ana_again (snd (registro steady ana shelf)) =
     (mensaje 409 ya_registrado, snd (registro steady ana shelf))"
proof -
  have fresh: "\<forall>u\<in>set (usuarios shelf). correo u \<noteq> JStr ''ana@example.org''"
    by (simp add: shelf_def)
  have h: "bcrypt_hash steady (get_prop ana ''contrasena'') 10 = Inr ''$toy$secreto''"
    by (simp add: steady_def toy_hash_def ana_props)
  show ?thesis
    using registro_twice [of ana "JStr ''ana@example.org''" ana_again shelf steady
        "''$toy$secreto''", OF ana_props(1) ana_again_props(1) _ _ _ fresh steady_faults h
        steady_faults steady_faults]
    by (simp add: ana_props ana_again_props or_null_def shelf_def ana_row_def)
qed

text \<open>
  C5, as the code has it. When the lookup by address finds no row and the store then
  rejects the INSERT, with a duplicate-key error or any other, the handler answers with
  its generic 500, \<^verbatim>\<open>Error en el registro\<close>, and the tables are unchanged. The handler
  has one \<^verbatim>\<open>catch\<close> and never looks at the error it caught.
\<close>

theorem registro_insert_rejected:
  assumes "truthy (get_prop body ''correo'')" and "truthy (get_prop body ''contrasena'')"
    and "\<forall>u\<in>set (usuarios d). correo u \<noteq> get_prop body ''correo''"
    and "faults e (SelectUsuarioId (get_prop body ''correo'')) d = None"
    and "bcrypt_hash e (get_prop body ''contrasena'') 10 = Inr h"
    and "faults e (InsertUsuario (get_prop body ''correo'') (JStr h)
           (or_null (get_prop body ''nombre''))) d = Some x"
  shows "registro e body d = (mensaje 500 ''Error en el registro'', d)"
  using assms(6)
  by (simp add: registro_def registro_fresh [OF assms(1-5)] query_fails catch_def)

theorem registro_insert_rejected_witness:
  "usuarios shelf = [] \<and>
   faults raced (InsertUsuario (JStr ''ana@example.org'') (JStr ''$toy$secreto'') (JStr ''Ana''))
     shelf = Some (StoreError ''ER_DUP_ENTRY'') \<and>
   registro raced ana shelf = (mensaje 500 ''Error en el registro'', shelf)"
proof -
  have fresh: "\<forall>u\<in>set (usuarios shelf). correo u \<noteq> get_prop ana ''correo''"
    by (simp add: shelf_def)
  have h: "bcrypt_hash raced (get_prop ana ''contrasena'') 10 = Inr ''$toy$secreto''"
    by (simp add: raced_def toy_hash_def ana_props)
  have t: "truthy (get_prop ana ''correo'')" "truthy (get_prop ana ''contrasena'')"
    by (simp_all add: ana_props)
  show ?thesis
    using registro_insert_rejected [OF t fresh raced_insert(2) h raced_insert(1)]
    by (simp add: raced_insert shelf_def)
qed

text \<open>
  C5 as claimed, that such a rejection is answered 409, fails: on an empty users table
  with a store that refuses the INSERT as a duplicate entry, the answer is 500.
\<close>

theorem duplicate_key_not_409:
  "status (fst (registro raced ana shelf)) = 500 \<and>
   status (fst (registro raced ana shelf)) \<noteq> 409 \<and>
   usuarios shelf = [] \<and>
   faults raced (InsertUsuario (JStr ''ana@example.org'') (JStr ''$toy$secreto'') (JStr ''Ana''))
     shelf = Some (StoreError ''ER_DUP_ENTRY'')"
proof -
  have fresh: "\<forall>u\<in>set (usuarios shelf). correo u \<noteq> get_prop ana ''correo''"
    by (simp add: shelf_def)
  have h: "bcrypt_hash raced (get_prop ana ''contrasena'') 10 = Inr ''$toy$secreto''"
    by (simp add: raced_def toy_hash_def ana_props)
  have t: "truthy (get_prop ana ''correo'')" "truthy (get_prop ana ''contrasena'')"
    by (simp_all add: ana_props)
  have "registro_try raced ana shelf = (Inl (StoreError ''ER_DUP_ENTRY''), shelf)"
    by (simp add: registro_fresh [OF t fresh raced_insert(2) h] query_fails raced_insert)
  then show ?thesis
    by (simp add: registro_def catch_def mensaje_def raced_insert shelf_def)
qed


subsection \<open>Login\<close>

text \<open>
  C6, as the code has it. Take a login with a registered address and a wrong password,
  and a login with an address no user has, both with address and password present.
  When the hash comparison of the wrong password returns false, the two are answered
  alike: status 401 and the same body, the one message \<open>incorrectos\<close> that both
  rejections of the handler use. When the comparison throws instead, the login with
  the registered address ends in the handler's \<^verbatim>\<open>catch\<close> and is answered 500 with
  \<^verbatim>\<open>Error en el login\<close>, while the other, which never reaches the comparison, is still
  answered 401.
\<close>

theorem login_rejections_alike:
  assumes "truthy (get_prop known ''correo'')" and "truthy (get_prop known ''contrasena'')"
    and "filter (\<lambda>u. correo u = get_prop known ''correo'') (usuarios d) = u # us"
    and "faults e (SelectUsuario (get_prop known ''correo'')) d = None"
    and "truthy (get_prop unknown ''correo'')" and "truthy (get_prop unknown ''contrasena'')"
    and "\<forall>v\<in>set (usuarios d). correo v \<noteq> get_prop unknown ''correo''"
    and "faults e (SelectUsuario (get_prop unknown ''correo'')) d = None"
  shows "(bcrypt_compare e (get_prop known ''contrasena'') (contrasena u) = Inr False \<longrightarrow>
            fst (login e known d) = mensaje 401 incorrectos \<and>
            fst (login e unknown d) = mensaje 401 incorrectos \<and>
            status (fst (login e known d)) = status (fst (login e unknown d)) \<and>
            json (fst (login e known d)) = json (fst (login e unknown d))) \<and>
         (bcrypt_compare e (get_prop known ''contrasena'') (contrasena u) = Inl x \<longrightarrow>
            fst (login e known d) = mensaje 500 ''Error en el login'' \<and>
            fst (login e unknown d) = mensaje 401 incorrectos)"
proof -
  have unknown: "login e unknown d = (mensaje 401 incorrectos, d)"
    by (rule login_unknown [OF assms(5-8)])
  have rejected: "login e known d = (mensaje 401 incorrectos, d)"
    if "bcrypt_compare e (get_prop known ''contrasena'') (contrasena u) = Inr False"
    using that by (simp add: login_def login_known [OF assms(1-4)] catch_def)
  have thrown: "login e known d = (mensaje 500 ''Error en el login'', d)"
    if "bcrypt_compare e (get_prop known ''contrasena'') (contrasena u) = Inl x"
    using that by (simp add: login_def login_known [OF assms(1-4)] catch_def)
  from unknown rejected thrown show ?thesis
    by simp
qed

theorem login_rejections_alike_witness:
  "usuarios members = [ana_row] \<and>
   correo ana_row = JStr ''ana@example.org'' \<and>
   bcrypt_compare steady (JStr ''errada'') (contrasena ana_row) = Inr False \<and>
   fst (login steady ana_wrong members) = mensaje 401 incorrectos \<and>
   fst (login steady nobody members) = mensaje 401 incorrectos \<and>
   bcrypt_compare steady (JNum (Fin 12345)) (contrasena ana_row) = Inl HashError \<and>
   fst (login steady ana_number members) = mensaje 500 ''Error en el login'' \<and>
   fst (login steady nobody_number members) = mensaje 401 incorrectos"
proof -
  have rows: "filter (\<lambda>u. correo u = get_prop ana_wrong ''correo'') (usuarios members) = [ana_row]"
    "filter (\<lambda>u. correo u = get_prop ana_number ''correo'') (usuarios members) = [ana_row]"
    by (simp_all add: members_rows ana_wrong_props ana_number_props)
  have none: "\<forall>v\<in>set (usuarios members). correo v \<noteq> get_prop nobody ''correo''"
    "\<forall>v\<in>set (usuarios members). correo v \<noteq> get_prop nobody_number ''correo''"
    by (simp_all add: members_rows nobody_props nobody_number_props)
  have no: "bcrypt_compare steady (get_prop ana_wrong ''contrasena'') (contrasena ana_row) = Inr False"
    and err: "bcrypt_compare steady (get_prop ana_number ''contrasena'') (contrasena ana_row) =
      Inl HashError"
    by (simp_all add: steady_compare ana_wrong_props ana_number_props)
  have t: "truthy (get_prop ana_wrong ''correo'')" "truthy (get_prop ana_wrong ''contrasena'')"
    "truthy (get_prop nobody ''correo'')" "truthy (get_prop nobody ''contrasena'')"
    by (simp_all add: ana_wrong_props nobody_props)
  have n: "truthy (get_prop ana_number ''correo'')" "truthy (get_prop ana_number ''contrasena'')"
    "truthy (get_prop nobody_number ''correo'')" "truthy (get_prop nobody_number ''contrasena'')"
    by (simp_all add: ana_number_props nobody_number_props)
  have a: "fst (login steady ana_wrong members) = mensaje 401 incorrectos \<and>
     fst (login steady nobody members) = mensaje 401 incorrectos \<and>
     status (fst (login steady ana_wrong members)) = status (fst (login steady nobody members)) \<and>
     json (fst (login steady ana_wrong members)) = json (fst (login steady nobody members))"
    by (rule login_rejections_alike [OF t(1,2) rows(1) steady_faults t(3,4) none(1) steady_faults,
          THEN conjunct1, THEN mp, OF no])
  have b: "fst (login steady ana_number members) = mensaje 500 ''Error en el login'' \<and>
     fst (login steady nobody_number members) = mensaje 401 incorrectos"
    by (rule login_rejections_alike [OF n(1,2) rows(2) steady_faults n(3,4) none(2) steady_faults,
          THEN conjunct2, THEN mp, OF err])
  have m: "usuarios members = [ana_row]" "correo ana_row = JStr ''ana@example.org''"
    by (simp_all add: members_def ana_row_def)
  from a b m steady_compare show ?thesis
    by simp
qed

text \<open>
  C6 as claimed, that every such pair gets the same 401 and the same body, fails for a
  hashing library that throws on a password that is not a string: with the number 12345
  as the password, the registered address is answered 500 and the unregistered one 401.
\<close>

theorem login_number_password_tells:
  "usuarios members = [ana_row] \<and>
   correo ana_row = JStr ''ana@example.org'' \<and>
   contrasena ana_row = JStr ''$toy$secreto'' \<and>
   get_prop ana_number ''correo'' = JStr ''ana@example.org'' \<and>
   get_prop nobody_number ''correo'' = JStr ''nadie@example.org'' \<and>
   get_prop ana_number ''contrasena'' = JNum (Fin 12345) \<and>
   get_prop nobody_number ''contrasena'' = JNum (Fin 12345) \<and>
   truthy (JNum (Fin 12345)) \<and>
   status (fst (login steady ana_number members)) = 500 \<and>
   status (fst (login steady nobody_number members)) = 401 \<and>
   json (fst (login steady ana_number members)) \<noteq> json (fst (login steady nobody_number members))"
proof -
  have t: "truthy (get_prop ana_number ''correo'')" "truthy (get_prop ana_number ''contrasena'')"
    "truthy (get_prop nobody_number ''correo'')" "truthy (get_prop nobody_number ''contrasena'')"
    by (simp_all add: ana_number_props nobody_number_props)
  have rows: "filter (\<lambda>u. correo u = get_prop ana_number ''correo'') (usuarios members) = [ana_row]"
    by (simp add: members_rows ana_number_props)
  have none: "\<forall>v\<in>set (usuarios members). correo v \<noteq> get_prop nobody_number ''correo''"
    by (simp add: members_rows nobody_number_props)
  have one: "login steady ana_number members = (mensaje 500 ''Error en el login'', members)"
    by (simp add: login_def login_known [OF t(1,2) rows steady_faults] ana_number_props
        steady_compare catch_def)
  have two: "login steady nobody_number members = (mensaje 401 incorrectos, members)"
    by (rule login_unknown [OF t(3,4) none steady_faults])
  have m: "usuarios members = [ana_row]" "correo ana_row = JStr ''ana@example.org''"
    "contrasena ana_row = JStr ''$toy$secreto''"
    by (simp_all add: members_def ana_row_def)
  from one two m show ?thesis
    by (simp add: mensaje_def incorrectos_def ana_number_props nobody_number_props)
qed


text \<open>
  C7. Registering an address that is not in the table, with a password, and then
  logging in with the same address and password is answered 200, and the user object
  of the answer has exactly the keys \<^verbatim>\<open>id\<close>, \<^verbatim>\<open>correo\<close> and \<^verbatim>\<open>nombre\<close>: the \<^verbatim>\<open>contrasena\<close> of the
  row is deleted from it. (The store accepts the statements, and the hashing library
  returns a hash that its comparison accepts for the same password.)
\<close>

theorem registro_then_login:
  assumes "get_prop reg ''correo'' = c" and "get_prop reg ''contrasena'' = p"
    and "get_prop cred ''correo'' = c" and "get_prop cred ''contrasena'' = p"
    and "truthy c" and "truthy p"
    and "\<forall>u\<in>set (usuarios d). correo u \<noteq> c"
    and "faults e (SelectUsuarioId c) d = None"
    and "bcrypt_hash e p 10 = Inr h"
    and "faults e (InsertUsuario c (JStr h) (or_null (get_prop reg ''nombre''))) d = None"
    and "bcrypt_compare e p (JStr h) = Inr True"
    and "faults e (SelectUsuario c) (snd (registro e reg d)) = None"
  shows "status (fst (registro e reg d)) = 200 \<and>
         fst (login e cred (snd (registro e reg d))) =
           \<lparr>status = 200,
            json = JObj [(''mensaje'', JStr ''Login exitoso''),
                         (''usuario'',
                          JObj [(''id'', js_int (usuarios_auto_increment d)),
                                (''correo'', c),
                                (''nombre'', or_null (get_prop reg ''nombre''))])]\<rparr>"
proof -
  let ?n = "or_null (get_prop reg ''nombre'')"
  let ?d1 = "snd (execute (InsertUsuario c (JStr h) ?n) d)"
  have one: "registro e reg d =
      (\<lparr>status = 200,
        json = JObj [(''mensaje'', JStr ''Usuario registrado correctamente''),
                     (''id'', js_int (usuarios_auto_increment d))]\<rparr>, ?d1)"
    using registro_accepted [of reg d e h] assms by simp
  have rows: "filter (\<lambda>u. correo u = get_prop cred ''correo'') (usuarios ?d1) =
      [\<lparr>user_id = usuarios_auto_increment d, correo = c, contrasena = JStr h, nombre = ?n\<rparr>]"
    using inserted_only [OF assms(7)] assms(3) by simp
  have sel: "faults e (SelectUsuario (get_prop cred ''correo'')) ?d1 = None"
    using assms(12) one assms(3) by simp
  have t: "truthy (get_prop cred ''correo'')" "truthy (get_prop cred ''contrasena'')"
    using assms(3-6) by simp_all
  have "login e cred ?d1 =
      (\<lparr>status = 200,
        json = JObj [(''mensaje'', JStr ''Login exitoso''),
                     (''usuario'',
                      JObj [(''id'', js_int (usuarios_auto_increment d)), (''correo'', c),
                            (''nombre'', ?n)])]\<rparr>, ?d1)"
    using assms(4,11) login_known [OF t rows sel] by (simp add: login_def catch_def)
  with one show ?thesis
    by simp
qed

theorem registro_then_login_witness:
  "usuarios shelf = [] \<and>
   status (fst (registro steady ana shelf)) = 200 \<and>
   fst (login steady ana (snd (registro steady ana shelf))) =
     \<lparr>status = 200,
      json = JObj [(''mensaje'', JStr ''Login exitoso''),
                   (''usuario'',
                    JObj [(''id'', js_int 1), (''correo'', JStr ''ana@example.org''),
                          (''nombre'', JStr ''Ana'')])]\<rparr>"
proof -
  have fresh: "\<forall>u\<in>set (usuarios shelf). correo u \<noteq> JStr ''ana@example.org''"
    by (simp add: shelf_def)
  have h: "bcrypt_hash steady (JStr ''secreto'') 10 = Inr ''$toy$secreto''"
    by (simp add: steady_def toy_hash_def)
  have ok: "bcrypt_compare steady (JStr ''secreto'') (JStr ''$toy$secreto'') = Inr True"
    by (simp add: steady_def toy_compare_def)
  show ?thesis
    using registro_then_login [OF ana_props(1,2) ana_props(1,2) _ _ fresh steady_faults h
        steady_faults ok steady_faults]
    by (simp add: ana_props or_null_def shelf_def)
qed


end
